theory Spec2Isabelle
  imports Complex_Main
begin

section \<open>JavaScript numbers\<close>

text \<open>
  A TypeScript \<open>number\<close> is a finite value, one of the two infinities, or NaN. Finite
  values are modelled by the real number they denote: the arithmetic below is exact on
  finite operands (rounding, overflow to an infinity and the sign of zero are not
  modelled) and follows IEEE 754 on the infinities and on NaN.
\<close>

datatype number = Fin real | PosInf | NegInf | NaN

fun inf_times :: "real \<Rightarrow> number" where
  "inf_times a = (if a = 0 then NaN else if 0 < a then PosInf else NegInf)"

fun num_neg :: "number \<Rightarrow> number" where
  "num_neg (Fin a) = Fin (- a)"
| "num_neg PosInf = NegInf"
| "num_neg NegInf = PosInf"
| "num_neg NaN = NaN"

fun num_add :: "number \<Rightarrow> number \<Rightarrow> number" where
  "num_add NaN b = NaN"
| "num_add a NaN = NaN"
| "num_add (Fin a) (Fin b) = Fin (a + b)"
| "num_add (Fin a) PosInf = PosInf"
| "num_add (Fin a) NegInf = NegInf"
| "num_add PosInf (Fin b) = PosInf"
| "num_add NegInf (Fin b) = NegInf"
| "num_add PosInf PosInf = PosInf"
| "num_add NegInf NegInf = NegInf"
| "num_add PosInf NegInf = NaN"
| "num_add NegInf PosInf = NaN"

fun num_mul :: "number \<Rightarrow> number \<Rightarrow> number" where
  "num_mul NaN b = NaN"
| "num_mul a NaN = NaN"
| "num_mul (Fin a) (Fin b) = Fin (a * b)"
| "num_mul (Fin a) PosInf = inf_times a"
| "num_mul (Fin a) NegInf = inf_times (- a)"
| "num_mul PosInf (Fin b) = inf_times b"
| "num_mul NegInf (Fin b) = inf_times (- b)"
| "num_mul PosInf PosInf = PosInf"
| "num_mul NegInf NegInf = PosInf"
| "num_mul PosInf NegInf = NegInf"
| "num_mul NegInf PosInf = NegInf"

instantiation number :: "{plus, minus, times}"
begin

definition plus_number :: "number \<Rightarrow> number \<Rightarrow> number" where
  "plus_number a b = num_add a b"

definition minus_number :: "number \<Rightarrow> number \<Rightarrow> number" where
  "minus_number a b = num_add a (num_neg b)"

definition times_number :: "number \<Rightarrow> number \<Rightarrow> number" where
  "times_number a b = num_mul a b"

instance ..

end

text \<open>The comparison \<open>a < b\<close> of two numbers; it is false as soon as one is NaN.\<close>

fun num_less :: "number \<Rightarrow> number \<Rightarrow> bool" where
  "num_less NaN b = False"
| "num_less a NaN = False"
| "num_less (Fin a) (Fin b) = (a < b)"
| "num_less (Fin a) PosInf = True"
| "num_less (Fin a) NegInf = False"
| "num_less PosInf b = False"
| "num_less NegInf NegInf = False"
| "num_less NegInf b = True"

fun isFinite :: "number \<Rightarrow> bool" where
  "isFinite (Fin a) = True"
| "isFinite PosInf = False"
| "isFinite NegInf = False"
| "isFinite NaN = False"

text \<open>
  \<open>Math.min\<close> and \<open>Math.max\<close> of a list of arguments: NaN as soon as one argument is
  NaN, \<open>+Infinity\<close> and \<open>-Infinity\<close> on no argument. \<open>Math.abs\<close> keeps NaN.
\<close>

fun min2 :: "number \<Rightarrow> number \<Rightarrow> number" where
  "min2 a b = (if a = NaN \<or> b = NaN then NaN else if num_less b a then b else a)"

fun max2 :: "number \<Rightarrow> number \<Rightarrow> number" where
  "max2 a b = (if a = NaN \<or> b = NaN then NaN else if num_less a b then b else a)"

definition Math_min :: "number list \<Rightarrow> number" where
  "Math_min xs = foldl min2 PosInf xs"

definition Math_max :: "number list \<Rightarrow> number" where
  "Math_max xs = foldl max2 NegInf xs"

fun Math_abs :: "number \<Rightarrow> number" where
  "Math_abs (Fin a) = Fin \<bar>a\<bar>"
| "Math_abs PosInf = PosInf"
| "Math_abs NegInf = PosInf"
| "Math_abs NaN = NaN"

section \<open>Types\<close>

text \<open>
  \<open>RectUnit\<close> and \<open>BBoxRect\<close> of the source. The fields \<open>page\<close> and \<open>label\<close> are
  declared \<open>number\<close> and \<open>string | undefined\<close>; the JSON parser stores there whatever
  the document holds, so the record is parametric in the types of these two fields.
  Field names carry the prefix of their record, since \<open>id\<close>, \<open>x\<close>, \<open>top\<close> and the
  like are taken.
\<close>

datatype RectUnit = Inch | Ratio | Pdf

record ('p, 'l) BBoxRect =
  rect_id :: string
  rect_page :: 'p
  rect_x :: number
  rect_y :: number
  rect_width :: number
  rect_height :: number
  rect_unit :: RectUnit
  rect_label :: 'l
  rect_color :: "string option"

record PageSize =
  page_width :: number
  page_height :: number

record PdfBox =
  pdf_left :: number
  pdf_bottom :: number
  pdf_right :: number
  pdf_top :: number

record ViewBox =
  box_left :: number
  box_top :: number
  box_width :: number
  box_height :: number

text \<open>
  What a call can throw. A call either returns (\<open>Inr\<close>) or throws (\<open>Inl\<close>); \<open>Error\<close>
  carries the message given to \<open>new Error\<close>, \<open>TypeError\<close> is the one the runtime raises.
\<close>

datatype js_error = Error string | TypeError

definition bind_result :: "js_error + 'a \<Rightarrow> ('a \<Rightarrow> js_error + 'b) \<Rightarrow> js_error + 'b" where
  "bind_result r f = (case r of Inl e \<Rightarrow> Inl e | Inr v \<Rightarrow> f v)"

section \<open>Space converter and viewport projector\<close>

text \<open>
  \<open>rectToPdfPoints\<close>: the unit \<open>pdf\<close> passes through, \<open>inch\<close> multiplies by 72 and
  flips against the page height, everything else is treated as \<open>ratio\<close>. Each
  \<open>return\<close> of the source is an \<open>Inr\<close>; the body has no \<open>throw\<close>.
\<close>

definition rectToPdfPoints :: "('p, 'l) BBoxRect \<Rightarrow> PageSize \<Rightarrow> js_error + PdfBox" where
  "rectToPdfPoints rect pageSizePts =
    (if rect_unit rect = Pdf then
       Inr \<lparr>pdf_left = rect_x rect,
            pdf_bottom = rect_y rect,
            pdf_right = rect_x rect + rect_width rect,
            pdf_top = rect_y rect + rect_height rect\<rparr>
     else if rect_unit rect = Inch then
       (let leftInPts = rect_x rect * Fin 72;
            topInPts = rect_y rect * Fin 72;
            rightInPts = (rect_x rect + rect_width rect) * Fin 72;
            bottomInPts = (rect_y rect + rect_height rect) * Fin 72;
            h = page_height pageSizePts
        in Inr \<lparr>pdf_left = leftInPts,
                pdf_bottom = h - bottomInPts,
                pdf_right = rightInPts,
                pdf_top = h - topInPts\<rparr>)
     else
       (let leftPts = rect_x rect * page_width pageSizePts;
            topPts = rect_y rect * page_height pageSizePts;
            rightPts = (rect_x rect + rect_width rect) * page_width pageSizePts;
            bottomPts = (rect_y rect + rect_height rect) * page_height pageSizePts;
            h = page_height pageSizePts
        in Inr \<lparr>pdf_left = leftPts,
                pdf_bottom = h - bottomPts,
                pdf_right = rightPts,
                pdf_top = h - topPts\<rparr>))"

text \<open>
  \<open>rectToViewport\<close>. The viewport is used through \<open>convertToViewportPoint\<close> alone, so it
  is that function: from a page-space point to the pair of pixel coordinates.
\<close>

type_synonym viewport = "number \<Rightarrow> number \<Rightarrow> number \<times> number"

definition rectToViewport ::
  "('p, 'l) BBoxRect \<Rightarrow> viewport \<Rightarrow> PageSize \<Rightarrow> js_error + ViewBox" where
  "rectToViewport rect convertToViewportPoint pageSizePts =
    bind_result (rectToPdfPoints rect pageSizePts) (\<lambda>b.
      (case convertToViewportPoint (pdf_left b) (pdf_top b) of (vx1, vy1) \<Rightarrow>
       (case convertToViewportPoint (pdf_right b) (pdf_bottom b) of (vx2, vy2) \<Rightarrow>
          (let vLeft = Math_min [vx1, vx2];
               vTop = Math_min [vy1, vy2];
               width = Math_abs (vx2 - vx1);
               height = Math_abs (vy2 - vy1)
           in Inr \<lparr>box_left = vLeft, box_top = vTop,
                   box_width = width, box_height = height\<rparr>))))"

text \<open>Viewports and rectangles used as concrete inputs.\<close>

definition nan_viewport :: viewport where
  "nan_viewport px py = (NaN, NaN)"

definition inf_viewport :: viewport where
  "inf_viewport px py = (PosInf, py)"

definition mirror_viewport :: viewport where
  "mirror_viewport px py = (Fin 612 - px, py)"

definition letter :: PageSize where
  "letter = \<lparr>page_width = Fin 612, page_height = Fin 792\<rparr>"

definition flat_page :: PageSize where
  "flat_page = \<lparr>page_width = Fin 612, page_height = Fin 0\<rparr>"

definition inch_rect :: "(number, string option) BBoxRect" where
  "inch_rect = \<lparr>rect_id = ''t1'', rect_page = Fin 1, rect_x = Fin 1, rect_y = Fin 1,
     rect_width = Fin 2, rect_height = Fin 1, rect_unit = Inch, rect_label = None,
     rect_color = None\<rparr>"

definition ratio_rect :: "(number, string option) BBoxRect" where
  "ratio_rect = \<lparr>rect_id = ''t2'', rect_page = Fin 1, rect_x = Fin (1/2), rect_y = Fin (1/2),
     rect_width = Fin (1/4), rect_height = Fin (1/4), rect_unit = Ratio, rect_label = None,
     rect_color = None\<rparr>"

definition pdf_rect :: "(number, string option) BBoxRect" where
  "pdf_rect = \<lparr>rect_id = ''t3'', rect_page = Fin 1, rect_x = Fin 10, rect_y = Fin 20,
     rect_width = Fin 30, rect_height = Fin 40, rect_unit = Pdf, rect_label = None,
     rect_color = None\<rparr>"

section \<open>Values of a parsed JSON document\<close>

text \<open>
  The argument of \<open>parseUploadedAzureJson\<close> has type \<open>any\<close>; its callers pass the
  result of \<open>JSON.parse\<close>. A value is one of the JSON values, or \<open>undefined\<close> where a
  property is read that is not there. An object is its property table, every key listed
  once.
\<close>

datatype jsval =
    Undefined
  | Null
  | Bool bool
  | Num number
  | Str string
  | Arr "jsval list"
  | Obj "(string \<times> jsval) list"

fun nullish :: "jsval \<Rightarrow> bool" where
  "nullish Undefined = True"
| "nullish Null = True"
| "nullish v = False"

text \<open>\<open>a ?? b\<close>\<close>

definition coalesce :: "jsval \<Rightarrow> jsval \<Rightarrow> jsval" where
  "coalesce a b = (if nullish a then b else a)"

text \<open>The truth value of \<open>!!v\<close>.\<close>

fun truthy :: "jsval \<Rightarrow> bool" where
  "truthy Undefined = False"
| "truthy Null = False"
| "truthy (Bool b) = b"
| "truthy (Num n) = (n \<noteq> Fin 0 \<and> n \<noteq> NaN)"
| "truthy (Str s) = (s \<noteq> [])"
| "truthy (Arr xs) = True"
| "truthy (Obj kvs) = True"

text \<open>\<open>Array.isArray(v)\<close>\<close>

fun isArray :: "jsval \<Rightarrow> bool" where
  "isArray (Arr xs) = True"
| "isArray v = False"

text \<open>
  \<open>v?.k\<close> for the property names the parser reads (\<open>analysisResult\<close>, \<open>matchingWords\<close>,
  \<open>page\<close>, \<open>words\<close>, \<open>polygon\<close>, \<open>name\<close>): none of them is a built-in property of an
  array, a string, a number or a boolean, so only an object can hold one. Where the
  source writes \<open>w.k\<close> the value \<open>w\<close> has passed the guard on \<open>w?.polygon\<close> and is not
  nullish, and \<open>w.k\<close> is \<open>w?.k\<close>.
\<close>

fun getProp :: "jsval \<Rightarrow> string \<Rightarrow> jsval" where
  "getProp (Obj kvs) k = (case map_of kvs k of None \<Rightarrow> Undefined | Some v \<Rightarrow> v)"
| "getProp v k = Undefined"

text \<open>The decimal digits of an array index, as a template literal prints it.\<close>

fun decimal :: "nat \<Rightarrow> string" where
  "decimal n =
    (if n < 10 then [''0123456789'' ! n]
     else decimal (n div 10) @ [''0123456789'' ! (n mod 10)])"

declare decimal.simps [simp del]

text \<open>\<open>v?.[i]\<close>: an element of an array, a character of a string, a property of an object.\<close>

fun elemAt :: "jsval \<Rightarrow> nat \<Rightarrow> jsval" where
  "elemAt (Arr xs) i = (if i < length xs then xs ! i else Undefined)"
| "elemAt (Str s) i = (if i < length s then Str [s ! i] else Undefined)"
| "elemAt (Obj kvs) i = getProp (Obj kvs) (decimal i)"
| "elemAt v i = Undefined"

text \<open>
  The values a \<open>for ... of\<close> loop runs over: the elements of an array, the characters of
  a string. Any other value is not iterable and the loop throws a \<open>TypeError\<close>.
\<close>

fun iterate :: "jsval \<Rightarrow> js_error + jsval list" where
  "iterate (Arr xs) = Inr xs"
| "iterate (Str s) = Inr (map (\<lambda>ch. Str [ch]) s)"
| "iterate v = Inl TypeError"

text \<open>
  \<open>ToNumber\<close>, which \<open>Math.min\<close> and \<open>Math.max\<close> apply to each argument. On a string, an
  array or an object the conversion is the runtime's (it parses the string, or converts
  the object to a primitive first, which can throw); it is the parameter \<open>coerce\<close>.
\<close>

type_synonym coercion = "jsval \<Rightarrow> js_error + number"

fun ToNumber :: "coercion \<Rightarrow> jsval \<Rightarrow> js_error + number" where
  "ToNumber coerce Undefined = Inr NaN"
| "ToNumber coerce Null = Inr (Fin 0)"
| "ToNumber coerce (Bool b) = Inr (Fin (if b then 1 else 0))"
| "ToNumber coerce (Num n) = Inr n"
| "ToNumber coerce v = coerce v"

fun toNumbers :: "coercion \<Rightarrow> jsval list \<Rightarrow> js_error + number list" where
  "toNumbers coerce [] = Inr []"
| "toNumbers coerce (v # vs) =
    bind_result (ToNumber coerce v) (\<lambda>n.
    bind_result (toNumbers coerce vs) (\<lambda>ns. Inr (n # ns)))"

definition js_Math_min :: "coercion \<Rightarrow> jsval list \<Rightarrow> js_error + number" where
  "js_Math_min coerce args = bind_result (toNumbers coerce args) (\<lambda>ns. Inr (Math_min ns))"

definition js_Math_max :: "coercion \<Rightarrow> jsval list \<Rightarrow> js_error + number" where
  "js_Math_max coerce args = bind_result (toNumbers coerce args) (\<lambda>ns. Inr (Math_max ns))"

section \<open>Ingestion\<close>

text \<open>
  \<open>polygonsToRects\<close>. An item has a page, a polygon (that may be missing) and an optional
  label. The callback of \<open>items.map\<close> is \<open>polygonRect\<close>; the first item on which it throws
  ends the call. The page is printed into the id by the runtime's conversion of a number
  to a string, the parameter \<open>numToString\<close>.
\<close>

record PolyItem =
  item_page :: number
  item_polygon :: "number list option"
  item_label :: "string option"

definition polygonRect ::
  "(number \<Rightarrow> string) \<Rightarrow> PolyItem \<Rightarrow> nat \<Rightarrow> RectUnit
     \<Rightarrow> js_error + (number, string option) BBoxRect" where
  "polygonRect numToString it idx unit =
    (case item_polygon it of
       None \<Rightarrow> Inl (Error ''Polygon must have 4 points (8 values)'')
     | Some p \<Rightarrow>
        if length p < 8 then Inl (Error ''Polygon must have 4 points (8 values)'')
        else
          (let xs = [p ! 0, p ! 2, p ! 4, p ! 6];
               ys = [p ! 1, p ! 3, p ! 5, p ! 7];
               minX = Math_min xs;
               maxX = Math_max xs;
               minY = Math_min ys;
               maxY = Math_max ys
           in Inr \<lparr>rect_id = ''poly-'' @ numToString (item_page it) @ ''-'' @ decimal idx,
                   rect_page = item_page it,
                   rect_x = minX,
                   rect_y = minY,
                   rect_width = maxX - minX,
                   rect_height = maxY - minY,
                   rect_unit = unit,
                   rect_label = item_label it,
                   rect_color = None\<rparr>))"

fun polygonsToRects_from ::
  "(number \<Rightarrow> string) \<Rightarrow> nat \<Rightarrow> PolyItem list \<Rightarrow> RectUnit
     \<Rightarrow> js_error + (number, string option) BBoxRect list" where
  "polygonsToRects_from numToString idx [] unit = Inr []"
| "polygonsToRects_from numToString idx (it # items) unit =
    (case polygonRect numToString it idx unit of
       Inl e \<Rightarrow> Inl e
     | Inr r \<Rightarrow>
        (case polygonsToRects_from numToString (Suc idx) items unit of
           Inl e \<Rightarrow> Inl e
         | Inr rs \<Rightarrow> Inr (r # rs)))"

definition polygonsToRects ::
  "(number \<Rightarrow> string) \<Rightarrow> PolyItem list \<Rightarrow> RectUnit
     \<Rightarrow> js_error + (number, string option) BBoxRect list" where
  "polygonsToRects numToString items unit = polygonsToRects_from numToString 0 items unit"

text \<open>
  \<open>parseUploadedAzureJson\<close>. \<open>wordRect\<close> is the object literal given to \<open>rects.push\<close>;
  its six calls of \<open>Math.min\<close> and \<open>Math.max\<close> run in the order of the source. The
  three nested \<open>for ... of\<close> loops thread the array \<open>rects\<close>. \<open>crypto.randomUUID()\<close>
  is called once for each rectangle pushed: \<open>uuid n\<close> is what its call number \<open>n\<close>
  returns, and the number of calls made so far is the length of \<open>rects\<close>.
\<close>

definition wordRect ::
  "coercion \<Rightarrow> string \<Rightarrow> jsval \<Rightarrow> jsval \<Rightarrow> js_error + (jsval, jsval) BBoxRect" where
  "wordRect coerce ident page w =
    (let polygon = getProp w ''polygon'';
         xs = [elemAt polygon 0, elemAt polygon 2, elemAt polygon 4, elemAt polygon 6];
         ys = [elemAt polygon 1, elemAt polygon 3, elemAt polygon 5, elemAt polygon 7]
     in bind_result (js_Math_min coerce xs) (\<lambda>x.
        bind_result (js_Math_min coerce ys) (\<lambda>y.
        bind_result (js_Math_max coerce xs) (\<lambda>maxX.
        bind_result (js_Math_min coerce xs) (\<lambda>minX.
        bind_result (js_Math_max coerce ys) (\<lambda>maxY.
        bind_result (js_Math_min coerce ys) (\<lambda>minY.
          Inr \<lparr>rect_id = ident,
               rect_page = coalesce (coalesce (getProp w ''page'') page) (Num (Fin 1)),
               rect_x = x,
               rect_y = y,
               rect_width = maxX - minX,
               rect_height = maxY - minY,
               rect_unit = Inch,
               rect_label = getProp w ''name'',
               rect_color = None\<rparr>)))))))"

fun wordsLoop ::
  "coercion \<Rightarrow> (nat \<Rightarrow> string) \<Rightarrow> jsval \<Rightarrow> jsval list \<Rightarrow> (jsval, jsval) BBoxRect list
     \<Rightarrow> js_error + (jsval, jsval) BBoxRect list" where
  "wordsLoop coerce uuid page [] rects = Inr rects"
| "wordsLoop coerce uuid page (w # ws) rects =
    (if \<not> truthy (getProp w ''polygon'') \<or> \<not> isArray (getProp w ''polygon'')
     then wordsLoop coerce uuid page ws rects
     else
       (case wordRect coerce (uuid (length rects)) page w of
          Inl e \<Rightarrow> Inl e
        | Inr r \<Rightarrow> wordsLoop coerce uuid page ws (rects @ [r])))"

fun matchesLoop ::
  "coercion \<Rightarrow> (nat \<Rightarrow> string) \<Rightarrow> jsval list \<Rightarrow> (jsval, jsval) BBoxRect list
     \<Rightarrow> js_error + (jsval, jsval) BBoxRect list" where
  "matchesLoop coerce uuid [] rects = Inr rects"
| "matchesLoop coerce uuid (m # ms) rects =
    (let page = coalesce (getProp m ''page'') (getProp (elemAt (getProp m ''words'') 0) ''page'');
         words = coalesce (getProp m ''words'') (Arr [])
     in case iterate words of
          Inl e \<Rightarrow> Inl e
        | Inr ws \<Rightarrow>
           (case wordsLoop coerce uuid page ws rects of
              Inl e \<Rightarrow> Inl e
            | Inr rects' \<Rightarrow> matchesLoop coerce uuid ms rects'))"

fun resultsLoop ::
  "coercion \<Rightarrow> (nat \<Rightarrow> string) \<Rightarrow> jsval list \<Rightarrow> (jsval, jsval) BBoxRect list
     \<Rightarrow> js_error + (jsval, jsval) BBoxRect list" where
  "resultsLoop coerce uuid [] rects = Inr rects"
| "resultsLoop coerce uuid (res # results) rects =
    (let mw = coalesce (getProp res ''matchingWords'') (Arr [])
     in case iterate mw of
          Inl e \<Rightarrow> Inl e
        | Inr ms \<Rightarrow>
           (case matchesLoop coerce uuid ms rects of
              Inl e \<Rightarrow> Inl e
            | Inr rects' \<Rightarrow> resultsLoop coerce uuid results rects'))"

definition parseUploadedAzureJson ::
  "coercion \<Rightarrow> (nat \<Rightarrow> string) \<Rightarrow> jsval \<Rightarrow> js_error + (jsval, jsval) BBoxRect list" where
  "parseUploadedAzureJson coerce uuid raw =
    (let results = coalesce (getProp raw ''analysisResult'') (Arr [])
     in case iterate results of
          Inl e \<Rightarrow> Inl e
        | Inr rs \<Rightarrow> resultsLoop coerce uuid rs [])"

section \<open>The rectangle store\<close>

text \<open>
  \<open>updateRect\<close>. A patch is a \<open>Partial<BBoxRect>\<close>: each key is absent (\<open>None\<close>) or
  carries a value of the field's type. The spread \<open>{ ...r, ...patch }\<close> takes from the
  patch every key it has and the others from \<open>r\<close>. The state \<open>rects\<close> of the component is
  the list the updater function of \<open>setRects\<close> receives and returns.
\<close>

record RectPatch =
  patch_id :: "string option"
  patch_page :: "number option"
  patch_x :: "number option"
  patch_y :: "number option"
  patch_width :: "number option"
  patch_height :: "number option"
  patch_unit :: "RectUnit option"
  patch_label :: "string option option"
  patch_color :: "string option option"

definition pick :: "'a option \<Rightarrow> 'a \<Rightarrow> 'a" where
  "pick patched old = (case patched of None \<Rightarrow> old | Some v \<Rightarrow> v)"

definition spread ::
  "(number, string option) BBoxRect \<Rightarrow> RectPatch \<Rightarrow> (number, string option) BBoxRect" where
  "spread r patch =
    \<lparr>rect_id = pick (patch_id patch) (rect_id r),
     rect_page = pick (patch_page patch) (rect_page r),
     rect_x = pick (patch_x patch) (rect_x r),
     rect_y = pick (patch_y patch) (rect_y r),
     rect_width = pick (patch_width patch) (rect_width r),
     rect_height = pick (patch_height patch) (rect_height r),
     rect_unit = pick (patch_unit patch) (rect_unit r),
     rect_label = pick (patch_label patch) (rect_label r),
     rect_color = pick (patch_color patch) (rect_color r)\<rparr>"

definition updateRect ::
  "string \<Rightarrow> RectPatch \<Rightarrow> (number, string option) BBoxRect list
     \<Rightarrow> (number, string option) BBoxRect list" where
  "updateRect ident patch prev = map (\<lambda>r. if rect_id r = ident then spread r patch else r) prev"

section \<open>Vocabulary of the statements\<close>

text \<open>\<open>a <= b\<close> on numbers; false as soon as one is NaN.\<close>

fun num_le :: "number \<Rightarrow> number \<Rightarrow> bool" where
  "num_le NaN b = False"
| "num_le a NaN = False"
| "num_le (Fin a) (Fin b) = (a \<le> b)"
| "num_le (Fin a) PosInf = True"
| "num_le (Fin a) NegInf = False"
| "num_le PosInf PosInf = True"
| "num_le PosInf b = False"
| "num_le NegInf b = True"

text \<open>An item of \<open>polygonsToRects\<close> whose polygon is missing or has fewer than 8 values.\<close>

definition malformed :: "PolyItem \<Rightarrow> bool" where
  "malformed it = (case item_polygon it of None \<Rightarrow> True | Some p \<Rightarrow> length p < 8)"

text \<open>
  A word is \<open>okWord\<close> when its polygon is not an array (the guard of the loop skips it)
  or is an array of at least 8 entries whose first 8 are numbers. \<open>xCoords\<close> and
  \<open>yCoords\<close> are the numbers at the even and at the odd positions of the polygon, and
  \<open>numericRect\<close> is the rectangle with their bounding box.
\<close>

fun isNum :: "jsval \<Rightarrow> bool" where
  "isNum (Num n) = True"
| "isNum v = False"

fun numberOf :: "jsval \<Rightarrow> number" where
  "numberOf (Num n) = n"
| "numberOf v = NaN"

definition okWord :: "jsval \<Rightarrow> bool" where
  "okWord w =
    (case getProp w ''polygon'' of
       Arr ps \<Rightarrow> 8 \<le> length ps \<and> list_all isNum (take 8 ps)
     | _ \<Rightarrow> True)"

definition xCoords :: "jsval \<Rightarrow> number list" where
  "xCoords w = map (\<lambda>i. numberOf (elemAt (getProp w ''polygon'') i)) [0, 2, 4, 6]"

definition yCoords :: "jsval \<Rightarrow> number list" where
  "yCoords w = map (\<lambda>i. numberOf (elemAt (getProp w ''polygon'') i)) [1, 3, 5, 7]"

definition numericRect :: "string \<Rightarrow> jsval \<Rightarrow> jsval \<Rightarrow> (jsval, jsval) BBoxRect" where
  "numericRect ident page w =
    \<lparr>rect_id = ident,
     rect_page = coalesce (coalesce (getProp w ''page'') page) (Num (Fin 1)),
     rect_x = Math_min (xCoords w),
     rect_y = Math_min (yCoords w),
     rect_width = Math_max (xCoords w) - Math_min (xCoords w),
     rect_height = Math_max (yCoords w) - Math_min (yCoords w),
     rect_unit = Inch,
     rect_label = getProp w ''name'',
     rect_color = None\<rparr>"

text \<open>
  The words of a document in document order, each with the page of its group:
  \<open>docEntries\<close>. A document is \<open>wellShaped\<close> when every node the parser loops over
  (\<open>analysisResult\<close>, each \<open>matchingWords\<close>, each \<open>words\<close>, an absent or null one
  counting as the empty array) is iterable and every word is \<open>okWord\<close>. \<open>emitted\<close> is
  one \<open>numericRect\<close> for each entry whose polygon is an array, the ids drawn in order.
\<close>

definition iterable :: "jsval \<Rightarrow> bool" where
  "iterable v = (case iterate v of Inl e \<Rightarrow> False | Inr xs \<Rightarrow> True)"

definition elems :: "jsval \<Rightarrow> jsval list" where
  "elems v = (case iterate v of Inl e \<Rightarrow> [] | Inr xs \<Rightarrow> xs)"

definition wordsOf :: "jsval \<Rightarrow> jsval" where
  "wordsOf m = coalesce (getProp m ''words'') (Arr [])"

definition matchesOf :: "jsval \<Rightarrow> jsval" where
  "matchesOf res = coalesce (getProp res ''matchingWords'') (Arr [])"

definition resultsOf :: "jsval \<Rightarrow> jsval" where
  "resultsOf raw = coalesce (getProp raw ''analysisResult'') (Arr [])"

definition groupPage :: "jsval \<Rightarrow> jsval" where
  "groupPage m = coalesce (getProp m ''page'') (getProp (elemAt (getProp m ''words'') 0) ''page'')"

definition groupEntries :: "jsval \<Rightarrow> (jsval \<times> jsval) list" where
  "groupEntries m = map (Pair (groupPage m)) (elems (wordsOf m))"

definition resultEntries :: "jsval \<Rightarrow> (jsval \<times> jsval) list" where
  "resultEntries res = concat (map groupEntries (elems (matchesOf res)))"

definition docEntries :: "jsval \<Rightarrow> (jsval \<times> jsval) list" where
  "docEntries raw = concat (map resultEntries (elems (resultsOf raw)))"

definition shapedGroup :: "jsval \<Rightarrow> bool" where
  "shapedGroup m = (iterable (wordsOf m) \<and> list_all okWord (elems (wordsOf m)))"

definition shapedResult :: "jsval \<Rightarrow> bool" where
  "shapedResult res = (iterable (matchesOf res) \<and> list_all shapedGroup (elems (matchesOf res)))"

definition wellShaped :: "jsval \<Rightarrow> bool" where
  "wellShaped raw = (iterable (resultsOf raw) \<and> list_all shapedResult (elems (resultsOf raw)))"

definition emitted ::
  "(nat \<Rightarrow> string) \<Rightarrow> nat \<Rightarrow> (jsval \<times> jsval) list \<Rightarrow> (jsval, jsval) BBoxRect list" where
  "emitted uuid n entries =
    map (\<lambda>(i, (page, w)). numericRect (uuid i) page w)
      (enumerate n (filter (\<lambda>(page, w). isArray (getProp w ''polygon'')) entries))"

text \<open>
  The words of a document in document order, each with its group: \<open>docWords\<close>; those
  that pass the guard of the inner loop: \<open>acceptedWords\<close>. \<open>emitsFrom\<close> says of a list
  of rectangles that it holds, in order, what \<open>wordRect\<close> returns for each word that
  passes the guard, the ids drawn from position \<open>n\<close> on.
\<close>

definition groupWords :: "jsval \<Rightarrow> (jsval \<times> jsval) list" where
  "groupWords m = map (Pair m) (elems (wordsOf m))"

definition resultWords :: "jsval \<Rightarrow> (jsval \<times> jsval) list" where
  "resultWords res = concat (map groupWords (elems (matchesOf res)))"

definition docWords :: "jsval \<Rightarrow> (jsval \<times> jsval) list" where
  "docWords raw = concat (map resultWords (elems (resultsOf raw)))"

definition acceptedWords :: "jsval \<Rightarrow> (jsval \<times> jsval) list" where
  "acceptedWords raw = filter (\<lambda>(m, w). isArray (getProp w ''polygon'')) (docWords raw)"

definition emitsFrom ::
  "coercion \<Rightarrow> (nat \<Rightarrow> string) \<Rightarrow> nat \<Rightarrow> (jsval \<times> jsval) list
     \<Rightarrow> (jsval, jsval) BBoxRect list \<Rightarrow> bool" where
  "emitsFrom c u n mws new =
    list_all2 (\<lambda>(i, (m, w)) r. wordRect c (u i) (groupPage m) w = Inr r)
      (enumerate n (filter (\<lambda>(m, w). isArray (getProp w ''polygon'')) mws)) new"

text \<open>
  The page the specification gives a rectangle: the page of the word, else the page of
  the group, else 1.
\<close>

definition spec_page :: "jsval \<Rightarrow> jsval \<Rightarrow> jsval" where
  "spec_page w m = coalesce (coalesce (getProp w ''page'') (getProp m ''page'')) (Num (Fin 1))"

section \<open>Concrete inputs\<close>

text \<open>
  Stand-ins for the runtime where an example needs one: ids \<open>uuid-0\<close>, \<open>uuid-1\<close>, ...
  for \<open>crypto.randomUUID\<close>, NaN for the conversion of a string, an array or an object
  to a number, and the decimal digits of a non-negative whole number for its printing.
\<close>

definition uuid_stub :: "nat \<Rightarrow> string" where
  "uuid_stub n = ''uuid-'' @ decimal n"

definition coerce_stub :: coercion where
  "coerce_stub v = Inr NaN"

definition page_text :: "number \<Rightarrow> string" where
  "page_text n =
    (case n of
       Fin a \<Rightarrow> if 0 \<le> a \<and> a = of_int \<lfloor>a\<rfloor> then decimal (nat \<lfloor>a\<rfloor>) else ''?''
     | PosInf \<Rightarrow> ''Infinity''
     | NegInf \<Rightarrow> ''-Infinity''
     | NaN \<Rightarrow> ''NaN'')"

definition box_polygon :: jsval where
  "box_polygon = Arr [Num (Fin 1), Num (Fin 1), Num (Fin 3), Num (Fin 1),
                      Num (Fin 3), Num (Fin 2), Num (Fin 1), Num (Fin 2)]"

definition plain_word :: jsval where
  "plain_word = Obj [(''name'', Str ''alpha''), (''polygon'', box_polygon)]"

definition null_word :: jsval where
  "null_word = Obj [(''name'', Str ''beta''), (''polygon'', Null)]"

definition short_word :: jsval where
  "short_word = Obj [(''name'', Str ''gamma''), (''polygon'', Arr [Num (Fin 1), Num (Fin 1)])]"

definition paged_word :: jsval where
  "paged_word = Obj [(''name'', Str ''delta''), (''page'', Num (Fin 3)), (''polygon'', box_polygon)]"

definition skew_word :: jsval where
  "skew_word = Obj [(''name'', Str ''epsilon''),
     (''polygon'', Arr [Num (Fin 3), Num (Fin 2), Num (Fin 1), Num (Fin (3/2)),
                        Num (Fin 2), Num (Fin (1/2)), Num (Fin 4), Num (Fin 1)])]"

definition page1_group :: "jsval list \<Rightarrow> jsval" where
  "page1_group ws = Obj [(''page'', Num (Fin 1)), (''words'', Arr ws)]"

definition pageless_group :: "jsval list \<Rightarrow> jsval" where
  "pageless_group ws = Obj [(''words'', Arr ws)]"

definition document_of :: "jsval list \<Rightarrow> jsval" where
  "document_of groups = Obj [(''analysisResult'', Arr [Obj [(''matchingWords'', Arr groups)]])]"

definition scalar_document :: jsval where
  "scalar_document = Obj [(''analysisResult'', Num (Fin 5))]"

definition box_item :: PolyItem where
  "box_item = \<lparr>item_page = Fin 1,
     item_polygon = Some [Fin 1, Fin 1, Fin 3, Fin 1, Fin 3, Fin 2, Fin 1, Fin 2],
     item_label = None\<rparr>"

definition short_item :: PolyItem where
  "short_item = \<lparr>item_page = Fin 2, item_polygon = Some [Fin 0, Fin 0, Fin 1, Fin 0],
     item_label = None\<rparr>"

definition id_patch :: RectPatch where
  "id_patch = \<lparr>patch_id = Some ''t9'', patch_page = None, patch_x = None, patch_y = None,
     patch_width = None, patch_height = None, patch_unit = None, patch_label = None,
     patch_color = None\<rparr>"

definition x_patch :: RectPatch where
  "x_patch = \<lparr>patch_id = None, patch_page = None, patch_x = Some (Fin 5), patch_y = None,
     patch_width = None, patch_height = None, patch_unit = None, patch_label = None,
     patch_color = None\<rparr>"

section \<open>Arithmetic facts\<close>

lemma num_mul_commute: "num_mul a b = num_mul b a"
  by (cases a; cases b) (simp_all add: mult.commute)

lemma times_number_commute: "(a :: number) * b = b * a"
  by (simp add: times_number_def num_mul_commute)

lemma Fin_arith [simp]:
  "Fin a + Fin b = Fin (a + b)"
  "Fin a - Fin b = Fin (a - b)"
  "Fin a * Fin b = Fin (a * b)"
  by (simp_all add: plus_number_def minus_number_def times_number_def)

lemma Math_min_pair_Fin: "Math_min [Fin a, Fin b] = Fin (min a b)"
  by (simp add: Math_min_def min_def)

lemma Math_max_pair_Fin: "Math_max [Fin a, Fin b] = Fin (max a b)"
  by (simp add: Math_max_def max_def)

lemma Math_min_quad_Fin:
  "Math_min [Fin a, Fin b, Fin c, Fin d] = Fin (Min {a, b, c, d})"
  by (simp add: Math_min_def min_def)

lemma Math_max_quad_Fin:
  "Math_max [Fin a, Fin b, Fin c, Fin d] = Fin (Max {a, b, c, d})"
  by (simp add: Math_max_def max_def)

lemma Math_abs_not_negative: "\<not> num_less (Math_abs a) (Fin 0)"
  by (cases a) simp_all

section \<open>Auxiliary facts\<close>

lemma Math_abs_nonneg: "a \<noteq> NaN \<Longrightarrow> num_le (Fin 0) (Math_abs a)"
  by (cases a) simp_all

lemma diff_finite: "isFinite a \<Longrightarrow> isFinite b \<Longrightarrow> a - b \<noteq> NaN"
  by (cases a; cases b) (simp_all add: minus_number_def)

lemma diff_not_finite: "\<not> (isFinite a \<and> isFinite b) \<Longrightarrow> \<not> isFinite (Math_abs (a - b))"
  by (cases a; cases b) (simp_all add: minus_number_def)

lemma rectToViewport_eq:
  assumes "rectToPdfPoints rect pageSizePts = Inr pb"
    and "vp (pdf_left pb) (pdf_top pb) = (vx1, vy1)"
    and "vp (pdf_right pb) (pdf_bottom pb) = (vx2, vy2)"
  shows "rectToViewport rect vp pageSizePts =
     Inr \<lparr>box_left = Math_min [vx1, vx2], box_top = Math_min [vy1, vy2],
          box_width = Math_abs (vx2 - vx1), box_height = Math_abs (vy2 - vy1)\<rparr>"
  using assms by (simp add: rectToViewport_def bind_result_def Let_def)

lemma polygonRect_malformed:
  "malformed it \<Longrightarrow> polygonRect nts it idx unit = Inl (Error ''Polygon must have 4 points (8 values)'')"
  by (simp add: malformed_def polygonRect_def split: option.splits)

lemma polygonRect_wellformed:
  "\<not> malformed it \<Longrightarrow> \<exists>r. polygonRect nts it idx unit = Inr r"
  by (auto simp add: malformed_def polygonRect_def Let_def split: option.splits)

lemma polygonsToRects_from_throws:
  "list_ex malformed items \<Longrightarrow>
   polygonsToRects_from nts idx items unit = Inl (Error ''Polygon must have 4 points (8 values)'')"
proof (induction items arbitrary: idx)
  case Nil
  then show ?case by simp
next
  case (Cons it items)
  show ?case
  proof (cases "malformed it")
    case True
    then show ?thesis by (simp add: polygonRect_malformed)
  next
    case False
    then obtain r where r: "polygonRect nts it idx unit = Inr r"
      using polygonRect_wellformed by blast
    from False Cons.prems have "list_ex malformed items" by simp
    then show ?thesis using Cons.IH r by simp
  qed
qed

lemma polygonsToRects_from_returns:
  "\<not> list_ex malformed items \<Longrightarrow>
   \<exists>rs. polygonsToRects_from nts idx items unit = Inr rs \<and> length rs = length items"
proof (induction items arbitrary: idx)
  case Nil
  then show ?case by simp
next
  case (Cons it items)
  then obtain r where r: "polygonRect nts it idx unit = Inr r"
    using polygonRect_wellformed by fastforce
  from Cons obtain rs where "polygonsToRects_from nts (Suc idx) items unit = Inr rs \<and> length rs = length items"
    by fastforce
  then show ?case using r by simp
qed


subsection \<open>The loops of the parser\<close>

lemma ToNumber_isNum: "isNum v \<Longrightarrow> ToNumber c v = Inr (numberOf v)"
  by (cases v) simp_all

lemma isArray_truthy: "isArray v \<Longrightarrow> truthy v"
  by (cases v) simp_all

lemma okWord_elem:
  assumes "getProp w ''polygon'' = Arr ps" and "okWord w" and "i < 8"
  shows "isNum (elemAt (getProp w ''polygon'') i)"
proof -
  from assms have len: "8 \<le> length ps" and all: "list_all isNum (take 8 ps)"
    by (simp_all add: okWord_def)
  from all have "\<forall>j < length (take 8 ps). isNum (take 8 ps ! j)"
    by (simp only: list_all_length)
  with len \<open>i < 8\<close> have "isNum (ps ! i)" by simp
  with len \<open>i < 8\<close> assms(1) show ?thesis by simp
qed

lemma toNumbers_isNum:
  "list_all isNum vs \<Longrightarrow> toNumbers c vs = Inr (map numberOf vs)"
  by (induction vs) (simp_all add: ToNumber_isNum bind_result_def)

lemma wordRect_ok:
  assumes "okWord w" and "isArray (getProp w ''polygon'')"
  shows "wordRect c ident page w = Inr (numericRect ident page w)"
proof -
  from assms(2) obtain ps where ps: "getProp w ''polygon'' = Arr ps"
    by (cases "getProp w ''polygon''") simp_all
  have n: "\<And>i. i < 8 \<Longrightarrow> isNum (elemAt (getProp w ''polygon'') i)"
    using okWord_elem [OF ps assms(1)] .
  let ?p = "getProp w ''polygon''"
  have xs: "toNumbers c [elemAt ?p 0, elemAt ?p 2, elemAt ?p 4, elemAt ?p 6] = Inr (xCoords w)"
    using toNumbers_isNum [of "[elemAt ?p 0, elemAt ?p 2, elemAt ?p 4, elemAt ?p 6]" c] n
    by (simp add: xCoords_def)
  have ys: "toNumbers c [elemAt ?p 1, elemAt ?p 3, elemAt ?p 5, elemAt ?p 7] = Inr (yCoords w)"
    using toNumbers_isNum [of "[elemAt ?p 1, elemAt ?p 3, elemAt ?p 5, elemAt ?p 7]" c] n
    by (simp add: yCoords_def)
  show ?thesis
    unfolding wordRect_def Let_def js_Math_min_def js_Math_max_def xs ys
    by (simp add: bind_result_def numericRect_def)
qed

lemma emitted_Nil [simp]: "emitted u n [] = []"
  by (simp add: emitted_def)

lemma emitted_Cons:
  "emitted u n ((page, w) # es) =
    (if isArray (getProp w ''polygon'') then numericRect (u n) page w # emitted u (Suc n) es
     else emitted u n es)"
  by (simp add: emitted_def)

lemma length_emitted:
  "length (emitted u n es) = length (filter (\<lambda>(page, w). isArray (getProp w ''polygon'')) es)"
  by (simp add: emitted_def)

lemma emitted_append:
  "emitted u n (es @ fs) = emitted u n es @ emitted u (n + length (emitted u n es)) fs"
  by (simp add: emitted_def enumerate_append_eq)

lemma wordsLoop_ok:
  "list_all okWord ws \<Longrightarrow>
   wordsLoop c u page ws rects = Inr (rects @ emitted u (length rects) (map (Pair page) ws))"
proof (induction ws arbitrary: rects)
  case Nil
  then show ?case by simp
next
  case (Cons w ws)
  then have ok: "okWord w" and rest: "list_all okWord ws" by simp_all
  show ?case
  proof (cases "isArray (getProp w ''polygon'')")
    case True
    then show ?thesis
      using wordRect_ok [OF ok True] Cons.IH [OF rest] isArray_truthy [OF True]
      by (simp add: emitted_Cons)
  next
    case False
    then show ?thesis
      using Cons.IH [OF rest] by (simp add: emitted_Cons)
  qed
qed

lemma iterable_elems: "iterable v \<Longrightarrow> iterate v = Inr (elems v)"
  by (simp add: iterable_def elems_def split: sum.splits)

lemma matchesLoop_ok:
  "list_all shapedGroup ms \<Longrightarrow>
   matchesLoop c u ms rects = Inr (rects @ emitted u (length rects) (concat (map groupEntries ms)))"
proof (induction ms arbitrary: rects)
  case Nil
  then show ?case by simp
next
  case (Cons m ms)
  then have m: "shapedGroup m" and rest: "list_all shapedGroup ms" by simp_all
  from m have it: "iterable (wordsOf m)" and ok: "list_all okWord (elems (wordsOf m))"
    by (simp_all add: shapedGroup_def)
  have "iterate (coalesce (getProp m ''words'') (Arr [])) = Inr (elems (wordsOf m))"
    using iterable_elems [OF it] by (simp add: wordsOf_def)
  then show ?case
    using wordsLoop_ok [OF ok, of c u "groupPage m" rects] Cons.IH [OF rest]
    by (simp add: Let_def groupPage_def groupEntries_def emitted_append)
qed

lemma resultsLoop_ok:
  "list_all shapedResult rs \<Longrightarrow>
   resultsLoop c u rs rects = Inr (rects @ emitted u (length rects) (concat (map resultEntries rs)))"
proof (induction rs arbitrary: rects)
  case Nil
  then show ?case by simp
next
  case (Cons res rs)
  then have r: "shapedResult res" and rest: "list_all shapedResult rs" by simp_all
  from r have it: "iterable (matchesOf res)" and ok: "list_all shapedGroup (elems (matchesOf res))"
    by (simp_all add: shapedResult_def)
  have "iterate (coalesce (getProp res ''matchingWords'') (Arr [])) = Inr (elems (matchesOf res))"
    using iterable_elems [OF it] by (simp add: matchesOf_def)
  then show ?case
    using matchesLoop_ok [OF ok, of c u rects] Cons.IH [OF rest]
    by (simp add: Let_def resultEntries_def emitted_append)
qed

lemma updateRect_replaces_id:
  "patch_id patch = Some j \<Longrightarrow>
   map rect_id (updateRect ident patch prev) =
     map (\<lambda>r. if rect_id r = ident then j else rect_id r) prev"
  by (induction prev) (simp_all add: updateRect_def spread_def pick_def)

subsection \<open>What a returning parse has emitted\<close>

lemma emitsFrom_Nil [simp]: "emitsFrom c u n [] new = (new = [])"
  by (auto simp add: emitsFrom_def)

lemma emitsFrom_length:
  "emitsFrom c u n mws new \<Longrightarrow>
   length new = length (filter (\<lambda>(m, w). isArray (getProp w ''polygon'')) mws)"
  by (auto simp add: emitsFrom_def dest: list_all2_lengthD)

lemma emitsFrom_append:
  assumes "emitsFrom c u n es a" and "emitsFrom c u (n + length a) fs b"
  shows "emitsFrom c u n (es @ fs) (a @ b)"
  using assms emitsFrom_length [OF assms(1)]
  by (simp add: emitsFrom_def enumerate_append_eq list_all2_appendI)

lemma wordsLoop_emits:
  "wordsLoop c u (groupPage m) ws rects = Inr rs \<Longrightarrow>
   \<exists>new. rs = rects @ new \<and> emitsFrom c u (length rects) (map (Pair m) ws) new"
proof (induction ws arbitrary: rects)
  case Nil
  then show ?case by simp
next
  case (Cons w ws)
  show ?case
  proof (cases "isArray (getProp w ''polygon'')")
    case False
    with Cons.prems have "wordsLoop c u (groupPage m) ws rects = Inr rs" by simp
    from Cons.IH [OF this] False show ?thesis
      by (simp add: emitsFrom_def)
  next
    case True
    then have t: "truthy (getProp w ''polygon'')" by (rule isArray_truthy)
    from Cons.prems True t obtain r where
      r: "wordRect c (u (length rects)) (groupPage m) w = Inr r"
      and rest: "wordsLoop c u (groupPage m) ws (rects @ [r]) = Inr rs"
      by (auto split: sum.splits)
    from Cons.IH [OF rest] obtain new where
      new: "rs = (rects @ [r]) @ new"
      and e: "emitsFrom c u (length (rects @ [r])) (map (Pair m) ws) new"
      by blast
    from e r True have "emitsFrom c u (length rects) (map (Pair m) (w # ws)) (r # new)"
      by (simp add: emitsFrom_def)
    with new show ?thesis by simp
  qed
qed

lemma matchesLoop_emits:
  "matchesLoop c u ms rects = Inr rs \<Longrightarrow>
   \<exists>new. rs = rects @ new \<and> emitsFrom c u (length rects) (concat (map groupWords ms)) new"
proof (induction ms arbitrary: rects)
  case Nil
  then show ?case by simp
next
  case (Cons m ms)
  from Cons.prems obtain ws rects' where
    it: "iterate (wordsOf m) = Inr ws"
    and wl: "wordsLoop c u (groupPage m) ws rects = Inr rects'"
    and rest: "matchesLoop c u ms rects' = Inr rs"
    by (auto simp add: Let_def wordsOf_def groupPage_def split: sum.splits)
  from it have el: "elems (wordsOf m) = ws" by (simp add: elems_def)
  from wordsLoop_emits [OF wl] obtain a where
    a: "rects' = rects @ a" and ea: "emitsFrom c u (length rects) (map (Pair m) ws) a"
    by blast
  from Cons.IH [OF rest] obtain b where
    b: "rs = rects' @ b" and eb: "emitsFrom c u (length rects') (concat (map groupWords ms)) b"
    by blast
  from eb a have "emitsFrom c u (length rects + length a) (concat (map groupWords ms)) b"
    by simp
  moreover have "groupWords m = map (Pair m) ws"
    using el by (simp add: groupWords_def)
  ultimately show ?case
    using emitsFrom_append [OF ea] a b by simp
qed

lemma resultsLoop_emits:
  "resultsLoop c u results rects = Inr rs \<Longrightarrow>
   \<exists>new. rs = rects @ new \<and> emitsFrom c u (length rects) (concat (map resultWords results)) new"
proof (induction results arbitrary: rects)
  case Nil
  then show ?case by simp
next
  case (Cons res results)
  from Cons.prems obtain ms rects' where
    it: "iterate (matchesOf res) = Inr ms"
    and ml: "matchesLoop c u ms rects = Inr rects'"
    and rest: "resultsLoop c u results rects' = Inr rs"
    by (auto simp add: Let_def matchesOf_def split: sum.splits)
  from it have el: "elems (matchesOf res) = ms" by (simp add: elems_def)
  from matchesLoop_emits [OF ml] obtain a where
    a: "rects' = rects @ a" and ea: "emitsFrom c u (length rects) (concat (map groupWords ms)) a"
    by blast
  from Cons.IH [OF rest] obtain b where
    b: "rs = rects' @ b" and eb: "emitsFrom c u (length rects') (concat (map resultWords results)) b"
    by blast
  from eb a have "emitsFrom c u (length rects + length a) (concat (map resultWords results)) b"
    by simp
  moreover have "resultWords res = concat (map groupWords ms)"
    using el by (simp add: resultWords_def)
  ultimately show ?case
    using emitsFrom_append [OF ea] a b by simp
qed

lemma parse_emits:
  assumes "parseUploadedAzureJson c u raw = Inr rs"
  shows "emitsFrom c u 0 (docWords raw) rs"
proof -
  from assms obtain results where
    it: "iterate (resultsOf raw) = Inr results"
    and rl: "resultsLoop c u results [] = Inr rs"
    by (auto simp add: parseUploadedAzureJson_def Let_def resultsOf_def split: sum.splits)
  from it have el: "elems (resultsOf raw) = results" by (simp add: elems_def)
  from resultsLoop_emits [OF rl] el show ?thesis
    by (simp add: docWords_def)
qed

lemma wordRect_finite:
  assumes "getProp w ''polygon'' =
      Arr (Num (Fin x1) # Num (Fin y1) # Num (Fin x2) # Num (Fin y2) #
           Num (Fin x3) # Num (Fin y3) # Num (Fin x4) # Num (Fin y4) # rest)"
  shows "wordRect c ident page w =
    Inr \<lparr>rect_id = ident,
         rect_page = coalesce (coalesce (getProp w ''page'') page) (Num (Fin 1)),
         rect_x = Fin (Min {x1, x2, x3, x4}),
         rect_y = Fin (Min {y1, y2, y3, y4}),
         rect_width = Fin (Max {x1, x2, x3, x4} - Min {x1, x2, x3, x4}),
         rect_height = Fin (Max {y1, y2, y3, y4} - Min {y1, y2, y3, y4}),
         rect_unit = Inch,
         rect_label = getProp w ''name'',
         rect_color = None\<rparr>"
proof -
  have ok: "okWord w" using assms by (simp add: okWord_def)
  have arr: "isArray (getProp w ''polygon'')" using assms by simp
  have xs: "xCoords w = [Fin x1, Fin x2, Fin x3, Fin x4]"
    using assms by (simp add: xCoords_def)
  have ys: "yCoords w = [Fin y1, Fin y2, Fin y3, Fin y4]"
    using assms by (simp add: yCoords_def)
  show ?thesis
    unfolding wordRect_ok [OF ok arr] numericRect_def xs ys
      Math_min_quad_Fin Math_max_quad_Fin Fin_arith ..
qed

subsection \<open>Unfolding the concrete inputs\<close>

lemmas doc_defs = document_of_def page1_group_def pageless_group_def plain_word_def null_word_def
  short_word_def paged_word_def skew_word_def box_polygon_def scalar_document_def

lemmas shape_defs = wellShaped_def shapedResult_def shapedGroup_def okWord_def iterable_def
  elems_def resultsOf_def matchesOf_def wordsOf_def coalesce_def

lemmas entry_defs = docEntries_def resultEntries_def groupEntries_def groupPage_def emitted_def
  numericRect_def xCoords_def yCoords_def Math_min_def Math_max_def uuid_stub_def decimal.simps

lemmas parse_defs = parseUploadedAzureJson_def wordRect_def js_Math_min_def js_Math_max_def
  bind_result_def coalesce_def Math_min_def Math_max_def uuid_stub_def decimal.simps
  minus_number_def Let_def

lemma parseUploadedAzureJson_box_document:
  "parseUploadedAzureJson coerce_stub uuid_stub (document_of [page1_group [plain_word]]) =
     Inr [\<lparr>rect_id = ''uuid-0'', rect_page = Num (Fin 1), rect_x = Fin 1, rect_y = Fin 1,
           rect_width = Fin 2, rect_height = Fin 1, rect_unit = Inch,
           rect_label = Str ''alpha'', rect_color = None\<rparr>]"
  by (simp add: doc_defs parse_defs)

lemma polygonsToRects_box_item:
  "polygonsToRects page_text [box_item] Inch =
     Inr [\<lparr>rect_id = ''poly-1-0'', rect_page = Fin 1, rect_x = Fin 1, rect_y = Fin 1,
           rect_width = Fin 2, rect_height = Fin 1, rect_unit = Inch, rect_label = None,
           rect_color = None\<rparr>]"
  by (simp add: polygonsToRects_def polygonRect_def box_item_def page_text_def decimal.simps
      Math_min_def Math_max_def Let_def)

section \<open>Properties of the space converter\<close>

text \<open>
  C1. For a rectangle in inches, on any page, \<open>rectToPdfPoints\<close> returns
  left = 72 * x, right = 72 * (x + width), top = page height - 72 * y and
  bottom = page height - 72 * (y + height). On the 612 by 792 page the rectangle
  x = 1, y = 1, width = 2, height = 1 gives left 72, right 216, bottom 648, top 720.
\<close>

theorem rectToPdfPoints_inch:
  "rect_unit rect = Inch \<Longrightarrow>
   rectToPdfPoints rect pageSizePts =
     Inr \<lparr>pdf_left = Fin 72 * rect_x rect,
          pdf_bottom = page_height pageSizePts - Fin 72 * (rect_y rect + rect_height rect),
          pdf_right = Fin 72 * (rect_x rect + rect_width rect),
          pdf_top = page_height pageSizePts - Fin 72 * rect_y rect\<rparr>"
  by (simp add: rectToPdfPoints_def Let_def times_number_commute)

theorem rectToPdfPoints_inch_letter:
  "rect_unit inch_rect = Inch \<and>
   rectToPdfPoints inch_rect letter =
     Inr \<lparr>pdf_left = Fin 72, pdf_bottom = Fin 648, pdf_right = Fin 216, pdf_top = Fin 720\<rparr>"
  using rectToPdfPoints_inch [of inch_rect letter]
  by (simp add: inch_rect_def letter_def)

text \<open>
  C2. For a rectangle in ratios, on any page, \<open>rectToPdfPoints\<close> scales the horizontal
  edges x and x + width by the page width and the vertical edges y and y + height by
  the page height, then flips the vertical edges against the page height as in the
  inch case. On the 612 by 792 page the rectangle x = 0.5, y = 0.5, width = 0.25,
  height = 0.25 gives left 306, right 459, bottom 198, top 396.
\<close>

theorem rectToPdfPoints_ratio:
  "rect_unit rect = Ratio \<Longrightarrow>
   rectToPdfPoints rect pageSizePts =
     Inr \<lparr>pdf_left = rect_x rect * page_width pageSizePts,
          pdf_bottom = page_height pageSizePts
             - (rect_y rect + rect_height rect) * page_height pageSizePts,
          pdf_right = (rect_x rect + rect_width rect) * page_width pageSizePts,
          pdf_top = page_height pageSizePts - rect_y rect * page_height pageSizePts\<rparr>"
  by (simp add: rectToPdfPoints_def Let_def)

theorem rectToPdfPoints_ratio_letter:
  "rect_unit ratio_rect = Ratio \<and>
   rectToPdfPoints ratio_rect letter =
     Inr \<lparr>pdf_left = Fin 306, pdf_bottom = Fin 198, pdf_right = Fin 459, pdf_top = Fin 396\<rparr>"
  using rectToPdfPoints_ratio [of ratio_rect letter]
  by (simp add: ratio_rect_def letter_def)

text \<open>
  C3. For a rectangle in pdf points, \<open>rectToPdfPoints\<close> passes the coordinates through
  without a flip: left = x, bottom = y, right = x + width, top = y + height, whatever
  the page size.
\<close>

theorem rectToPdfPoints_pdf:
  "rect_unit rect = Pdf \<Longrightarrow>
   rectToPdfPoints rect pageSizePts =
     Inr \<lparr>pdf_left = rect_x rect,
          pdf_bottom = rect_y rect,
          pdf_right = rect_x rect + rect_width rect,
          pdf_top = rect_y rect + rect_height rect\<rparr>"
  by (simp add: rectToPdfPoints_def)

theorem rectToPdfPoints_pdf_letter:
  "rect_unit pdf_rect = Pdf \<and>
   rectToPdfPoints pdf_rect letter =
     Inr \<lparr>pdf_left = Fin 10, pdf_bottom = Fin 20, pdf_right = Fin 40, pdf_top = Fin 60\<rparr>"
  using rectToPdfPoints_pdf [of pdf_rect letter]
  by (simp add: pdf_rect_def)

text \<open>
  C4. \<open>rectToPdfPoints\<close> checks nothing about the page: for every rectangle and every
  page size, a page height of zero included, it returns a box of numbers and throws no
  error.
\<close>

theorem rectToPdfPoints_returns: "\<exists>b. rectToPdfPoints rect pageSizePts = Inr b"
  by (simp add: rectToPdfPoints_def Let_def)

theorem rectToPdfPoints_returns_flat:
  "\<exists>b. rectToPdfPoints inch_rect flat_page = Inr b"
  using rectToPdfPoints_returns [of inch_rect flat_page] .

text \<open>
  On a page of height zero the inch rectangle x = 1, y = 1, width = 2, height = 1 is
  converted to a box, flipped against 0; no error is raised.
\<close>

theorem rectToPdfPoints_zero_height:
  "page_height flat_page = Fin 0 \<and> rect_unit inch_rect = Inch \<and>
   rectToPdfPoints inch_rect flat_page =
     Inr \<lparr>pdf_left = Fin 72, pdf_bottom = Fin (- 144), pdf_right = Fin 216, pdf_top = Fin (- 72)\<rparr>"
  by (simp add: rectToPdfPoints_def Let_def inch_rect_def flat_page_def)

section \<open>Properties of the viewport projector\<close>

text \<open>
  C5. \<open>rectToViewport\<close> does not check the mapped coordinates: when one of the four is
  not finite it still returns a box, and the width or the height of that box is not
  finite.
\<close>

theorem rectToViewport_non_finite:
  assumes "rectToPdfPoints rect pageSizePts = Inr pb"
    and "vp (pdf_left pb) (pdf_top pb) = (vx1, vy1)"
    and "vp (pdf_right pb) (pdf_bottom pb) = (vx2, vy2)"
    and "\<not> (isFinite vx1 \<and> isFinite vy1 \<and> isFinite vx2 \<and> isFinite vy2)"
  shows "\<exists>b. rectToViewport rect vp pageSizePts = Inr b
     \<and> \<not> (isFinite (box_width b) \<and> isFinite (box_height b))"
  using rectToViewport_eq [OF assms(1-3)] assms(4) diff_not_finite [of vx2 vx1] diff_not_finite [of vy2 vy1]
  by auto

theorem rectToViewport_non_finite_inf:
  "rectToPdfPoints pdf_rect letter =
      Inr \<lparr>pdf_left = Fin 10, pdf_bottom = Fin 20, pdf_right = Fin 40, pdf_top = Fin 60\<rparr>
   \<and> inf_viewport (Fin 10) (Fin 60) = (PosInf, Fin 60)
   \<and> inf_viewport (Fin 40) (Fin 20) = (PosInf, Fin 20)
   \<and> \<not> (isFinite PosInf \<and> isFinite (Fin 60) \<and> isFinite PosInf \<and> isFinite (Fin 20))
   \<and> (\<exists>b. rectToViewport pdf_rect inf_viewport letter = Inr b
        \<and> \<not> (isFinite (box_width b) \<and> isFinite (box_height b)))"
proof -
  let ?pb = "\<lparr>pdf_left = Fin 10, pdf_bottom = Fin 20, pdf_right = Fin 40, pdf_top = Fin 60\<rparr>"
  have a: "rectToPdfPoints pdf_rect letter = Inr ?pb"
    by (simp add: rectToPdfPoints_def pdf_rect_def)
  have b: "inf_viewport (pdf_left ?pb) (pdf_top ?pb) = (PosInf, Fin 60)"
    by (simp add: inf_viewport_def)
  have c: "inf_viewport (pdf_right ?pb) (pdf_bottom ?pb) = (PosInf, Fin 20)"
    by (simp add: inf_viewport_def)
  have d: "\<not> (isFinite PosInf \<and> isFinite (Fin 60) \<and> isFinite PosInf \<and> isFinite (Fin 20))"
    by simp
  from rectToViewport_non_finite [OF a b c d] a b c d show ?thesis
    by simp
qed

text \<open>
  With a viewport that maps every point to (NaN, NaN) the projector returns the box
  whose four fields are NaN; no error is raised.
\<close>

theorem rectToViewport_nan_box:
  "nan_viewport (Fin 10) (Fin 60) = (NaN, NaN) \<and> nan_viewport (Fin 40) (Fin 20) = (NaN, NaN) \<and>
   rectToViewport pdf_rect nan_viewport letter =
     Inr \<lparr>box_left = NaN, box_top = NaN, box_width = NaN, box_height = NaN\<rparr>"
  by (simp add: rectToViewport_def rectToPdfPoints_def bind_result_def pdf_rect_def
      nan_viewport_def Math_min_def minus_number_def)

text \<open>
  C6. \<open>rectToViewport\<close> maps the corners (left, top) and (right, bottom) of the page-space
  box through the viewport, each on its own. When the two mapped points have finite
  coordinates it returns their bounding box: left is the smaller of the two mapped x's,
  top the smaller of the two mapped y's, width and height the absolute values of the
  differences, so both are at least 0 whatever the viewport does to the corners.
\<close>

theorem rectToViewport_bounding_box:
  assumes "rectToPdfPoints rect pageSizePts = Inr pb"
    and "vp (pdf_left pb) (pdf_top pb) = (Fin x1, Fin y1)"
    and "vp (pdf_right pb) (pdf_bottom pb) = (Fin x2, Fin y2)"
  shows "rectToViewport rect vp pageSizePts =
     Inr \<lparr>box_left = Fin (min x1 x2), box_top = Fin (min y1 y2),
          box_width = Fin \<bar>x2 - x1\<bar>, box_height = Fin \<bar>y2 - y1\<bar>\<rparr>
     \<and> num_le (Fin 0) (Fin \<bar>x2 - x1\<bar>) \<and> num_le (Fin 0) (Fin \<bar>y2 - y1\<bar>)"
  using rectToViewport_eq [OF assms] by (simp add: Math_min_pair_Fin)

theorem rectToViewport_bounding_box_mirror:
  "rectToPdfPoints pdf_rect letter =
      Inr \<lparr>pdf_left = Fin 10, pdf_bottom = Fin 20, pdf_right = Fin 40, pdf_top = Fin 60\<rparr>
   \<and> mirror_viewport (Fin 10) (Fin 60) = (Fin 602, Fin 60)
   \<and> mirror_viewport (Fin 40) (Fin 20) = (Fin 572, Fin 20)
   \<and> rectToViewport pdf_rect mirror_viewport letter =
      Inr \<lparr>box_left = Fin 572, box_top = Fin 20, box_width = Fin 30, box_height = Fin 40\<rparr>
   \<and> num_le (Fin 0) (Fin 30) \<and> num_le (Fin 0) (Fin 40)"
proof -
  let ?pb = "\<lparr>pdf_left = Fin 10, pdf_bottom = Fin 20, pdf_right = Fin 40, pdf_top = Fin 60\<rparr>"
  have a: "rectToPdfPoints pdf_rect letter = Inr ?pb"
    by (simp add: rectToPdfPoints_def pdf_rect_def)
  have b: "mirror_viewport (pdf_left ?pb) (pdf_top ?pb) = (Fin 602, Fin 60)"
    by (simp add: mirror_viewport_def)
  have c: "mirror_viewport (pdf_right ?pb) (pdf_bottom ?pb) = (Fin 572, Fin 20)"
    by (simp add: mirror_viewport_def)
  from rectToViewport_bounding_box [OF a b c] a b c show ?thesis
    by simp
qed

text \<open>
  With a viewport that maps every point to (NaN, NaN) the width and the height of the
  returned box are NaN, and \<open>0 <= NaN\<close> is false.
\<close>

theorem rectToViewport_nan_width:
  "nan_viewport (Fin 72) (Fin 720) = (NaN, NaN) \<and> nan_viewport (Fin 216) (Fin 648) = (NaN, NaN) \<and>
   rectToViewport inch_rect nan_viewport letter =
     Inr \<lparr>box_left = NaN, box_top = NaN, box_width = NaN, box_height = NaN\<rparr> \<and>
   \<not> num_le (Fin 0) NaN"
  by (simp add: rectToViewport_def rectToPdfPoints_def bind_result_def inch_rect_def letter_def
      nan_viewport_def Math_min_def minus_number_def Let_def)

section \<open>Properties of the ingestion\<close>

text \<open>
  C7. On every well-shaped document (each of \<open>analysisResult\<close>, \<open>matchingWords\<close> and
  \<open>words\<close> absent, null, an array or a string; each polygon that is an array holding at
  least 8 entries, the first 8 of them numbers) \<open>parseUploadedAzureJson\<close> returns and
  does not throw. It skips every word whose polygon is missing, null or not an array,
  and returns one rectangle for each other word, in the order of the document.
\<close>

theorem parseUploadedAzureJson_lenient:
  assumes "wellShaped raw"
  shows "parseUploadedAzureJson c u raw = Inr (emitted u 0 (docEntries raw))"
proof -
  from assms have it: "iterable (resultsOf raw)" and ok: "list_all shapedResult (elems (resultsOf raw))"
    by (simp_all add: wellShaped_def)
  have "iterate (coalesce (getProp raw ''analysisResult'') (Arr [])) = Inr (elems (resultsOf raw))"
    using iterable_elems [OF it] by (simp add: resultsOf_def)
  then show ?thesis
    using resultsLoop_ok [OF ok, of c u "[]"]
    by (simp add: parseUploadedAzureJson_def Let_def docEntries_def)
qed

theorem parseUploadedAzureJson_null_sibling:
  "wellShaped (document_of [page1_group [null_word, plain_word]]) \<and>
   parseUploadedAzureJson coerce_stub uuid_stub (document_of [page1_group [null_word, plain_word]]) =
     Inr [\<lparr>rect_id = ''uuid-0'', rect_page = Num (Fin 1), rect_x = Fin 1, rect_y = Fin 1,
           rect_width = Fin 2, rect_height = Fin 1, rect_unit = Inch,
           rect_label = Str ''alpha'', rect_color = None\<rparr>]"
proof -
  have s: "wellShaped (document_of [page1_group [null_word, plain_word]])"
    by (simp add: doc_defs shape_defs)
  have e: "emitted uuid_stub 0 (docEntries (document_of [page1_group [null_word, plain_word]])) =
     [\<lparr>rect_id = ''uuid-0'', rect_page = Num (Fin 1), rect_x = Fin 1, rect_y = Fin 1,
           rect_width = Fin 2, rect_height = Fin 1, rect_unit = Inch,
           rect_label = Str ''alpha'', rect_color = None\<rparr>]"
    by (simp add: doc_defs shape_defs entry_defs)
  from parseUploadedAzureJson_lenient [OF s, of coerce_stub uuid_stub] s e show ?thesis by simp
qed

text \<open>
  Outside the well-shaped documents: an \<open>analysisResult\<close> that is a number makes the
  loop throw a \<open>TypeError\<close>, and a word whose polygon has two entries is not skipped
  but gives a rectangle of NaN.
\<close>

theorem parseUploadedAzureJson_throws_or_emits_nan:
  "parseUploadedAzureJson coerce_stub uuid_stub scalar_document = Inl TypeError \<and>
   parseUploadedAzureJson coerce_stub uuid_stub (document_of [page1_group [short_word, plain_word]]) =
     Inr [\<lparr>rect_id = ''uuid-0'', rect_page = Num (Fin 1), rect_x = NaN, rect_y = NaN,
           rect_width = NaN, rect_height = NaN, rect_unit = Inch,
           rect_label = Str ''gamma'', rect_color = None\<rparr>,
          \<lparr>rect_id = ''uuid-1'', rect_page = Num (Fin 1), rect_x = Fin 1, rect_y = Fin 1,
           rect_width = Fin 2, rect_height = Fin 1, rect_unit = Inch,
           rect_label = Str ''alpha'', rect_color = None\<rparr>]"
  by (simp add: doc_defs parse_defs)

text \<open>
  C8. Whenever \<open>parseUploadedAzureJson\<close> returns, take any word that passes the guard of
  the loop and whose polygon starts with 8 finite numbers, whatever its siblings are. The
  rectangle returned at the position of that word among the words that pass the guard
  has x and y the least of the four x and of the four y coordinates of the polygon,
  width and height the greatest minus the least, the unit inch, the word's name as
  label, and as page the page of the word if it has one, else the page of the group,
  else the page of the first word of the group, else 1.
\<close>

theorem parseUploadedAzureJson_word_rectangle:
  assumes "parseUploadedAzureJson c u raw = Inr rs"
    and "k < length (acceptedWords raw)"
    and "acceptedWords raw ! k = (m, w)"
    and "getProp w ''polygon'' =
      Arr (Num (Fin x1) # Num (Fin y1) # Num (Fin x2) # Num (Fin y2) #
           Num (Fin x3) # Num (Fin y3) # Num (Fin x4) # Num (Fin y4) # rest)"
  shows "k < length rs \<and>
    rs ! k =
      \<lparr>rect_id = u k,
       rect_page =
         coalesce (coalesce (getProp w ''page'')
             (coalesce (getProp m ''page'') (getProp (elemAt (getProp m ''words'') 0) ''page'')))
           (Num (Fin 1)),
       rect_x = Fin (Min {x1, x2, x3, x4}),
       rect_y = Fin (Min {y1, y2, y3, y4}),
       rect_width = Fin (Max {x1, x2, x3, x4} - Min {x1, x2, x3, x4}),
       rect_height = Fin (Max {y1, y2, y3, y4} - Min {y1, y2, y3, y4}),
       rect_unit = Inch,
       rect_label = getProp w ''name'',
       rect_color = None\<rparr>"
proof -
  let ?acc = "filter (\<lambda>(m, w). isArray (getProp w ''polygon'')) (docWords raw)"
  from parse_emits [OF assms(1)] have
    all: "list_all2 (\<lambda>(i, (m, w)) r. wordRect c (u i) (groupPage m) w = Inr r)
        (enumerate 0 ?acc) rs"
    by (simp add: emitsFrom_def)
  from assms(2) have k: "k < length ?acc" by (simp add: acceptedWords_def)
  from all have len: "length rs = length ?acc"
    by (auto dest: list_all2_lengthD)
  from k have "k < length (enumerate 0 ?acc)" by simp
  from list_all2_nthD [OF all this] k assms(3)
  have "wordRect c (u k) (groupPage m) w = Inr (rs ! k)"
    by (simp add: nth_enumerate_eq acceptedWords_def)
  with wordRect_finite [OF assms(4), of c "u k" "groupPage m"] len k show ?thesis
    by (simp add: groupPage_def)
qed

theorem parseUploadedAzureJson_word_rectangle_skew:
  "parseUploadedAzureJson coerce_stub uuid_stub
       (document_of [pageless_group [paged_word, short_word, skew_word]]) =
     Inr [\<lparr>rect_id = ''uuid-0'', rect_page = Num (Fin 3), rect_x = Fin 1, rect_y = Fin 1,
           rect_width = Fin 2, rect_height = Fin 1, rect_unit = Inch,
           rect_label = Str ''delta'', rect_color = None\<rparr>,
          \<lparr>rect_id = ''uuid-1'', rect_page = Num (Fin 3), rect_x = NaN, rect_y = NaN,
           rect_width = NaN, rect_height = NaN, rect_unit = Inch,
           rect_label = Str ''gamma'', rect_color = None\<rparr>,
          \<lparr>rect_id = ''uuid-2'', rect_page = Num (Fin 3), rect_x = Fin 1, rect_y = Fin (1/2),
           rect_width = Fin 3, rect_height = Fin (3/2), rect_unit = Inch,
           rect_label = Str ''epsilon'', rect_color = None\<rparr>]
   \<and> 2 < length (acceptedWords (document_of [pageless_group [paged_word, short_word, skew_word]]))
   \<and> acceptedWords (document_of [pageless_group [paged_word, short_word, skew_word]]) ! 2
       = (pageless_group [paged_word, short_word, skew_word], skew_word)
   \<and> getProp skew_word ''polygon'' =
        Arr [Num (Fin 3), Num (Fin 2), Num (Fin 1), Num (Fin (3/2)),
             Num (Fin 2), Num (Fin (1/2)), Num (Fin 4), Num (Fin 1)]
   \<and> [\<lparr>rect_id = ''uuid-0'', rect_page = Num (Fin 3), rect_x = Fin 1, rect_y = Fin 1,
           rect_width = Fin 2, rect_height = Fin 1, rect_unit = Inch,
           rect_label = Str ''delta'', rect_color = None\<rparr>,
          \<lparr>rect_id = ''uuid-1'', rect_page = Num (Fin 3), rect_x = NaN, rect_y = NaN,
           rect_width = NaN, rect_height = NaN, rect_unit = Inch,
           rect_label = Str ''gamma'', rect_color = None\<rparr>,
          \<lparr>rect_id = ''uuid-2'', rect_page = Num (Fin 3), rect_x = Fin 1, rect_y = Fin (1/2),
           rect_width = Fin 3, rect_height = Fin (3/2), rect_unit = Inch,
           rect_label = Str ''epsilon'', rect_color = None\<rparr>] ! 2 =
      \<lparr>rect_id = uuid_stub 2,
       rect_page = Num (Fin 3),
       rect_x = Fin (Min {3, 1, 2, 4}),
       rect_y = Fin (Min {2, 3/2, 1/2, 1}),
       rect_width = Fin (Max {3, 1, 2, 4} - Min {3, 1, 2, 4}),
       rect_height = Fin (Max {2, 3/2, 1/2, 1} - Min {2, 3/2, 1/2, 1}),
       rect_unit = Inch, rect_label = Str ''epsilon'', rect_color = None\<rparr>"
proof -
  let ?doc = "document_of [pageless_group [paged_word, short_word, skew_word]]"
  let ?rs = "[\<lparr>rect_id = ''uuid-0'', rect_page = Num (Fin 3), rect_x = Fin 1, rect_y = Fin 1,
           rect_width = Fin 2, rect_height = Fin 1, rect_unit = Inch,
           rect_label = Str ''delta'', rect_color = None\<rparr>,
          \<lparr>rect_id = ''uuid-1'', rect_page = Num (Fin 3), rect_x = NaN, rect_y = NaN,
           rect_width = NaN, rect_height = NaN, rect_unit = Inch,
           rect_label = Str ''gamma'', rect_color = None\<rparr>,
          \<lparr>rect_id = ''uuid-2'', rect_page = Num (Fin 3), rect_x = Fin 1, rect_y = Fin (1/2),
           rect_width = Fin 3, rect_height = Fin (3/2), rect_unit = Inch,
           rect_label = Str ''epsilon'', rect_color = None\<rparr>]"
  have a: "parseUploadedAzureJson coerce_stub uuid_stub ?doc = Inr ?rs"
    by (simp add: doc_defs parse_defs)
  have acc: "acceptedWords ?doc =
      [(pageless_group [paged_word, short_word, skew_word], paged_word),
       (pageless_group [paged_word, short_word, skew_word], short_word),
       (pageless_group [paged_word, short_word, skew_word], skew_word)]"
    by (simp add: acceptedWords_def docWords_def resultWords_def groupWords_def
        resultsOf_def matchesOf_def wordsOf_def elems_def coalesce_def
        document_of_def pageless_group_def paged_word_def short_word_def skew_word_def
        box_polygon_def)
  have b: "2 < length (acceptedWords ?doc)" by (simp add: acc)
  have c: "acceptedWords ?doc ! 2 = (pageless_group [paged_word, short_word, skew_word], skew_word)"
    by (simp add: acc)
  have d: "getProp skew_word ''polygon'' =
        Arr (Num (Fin 3) # Num (Fin 2) # Num (Fin 1) # Num (Fin (3/2)) #
             Num (Fin 2) # Num (Fin (1/2)) # Num (Fin 4) # Num (Fin 1) # [])"
    by (simp add: skew_word_def)
  have pg: "coalesce (coalesce (getProp skew_word ''page'')
             (coalesce (getProp (pageless_group [paged_word, short_word, skew_word]) ''page'')
                (getProp (elemAt (getProp (pageless_group [paged_word, short_word, skew_word]) ''words'') 0) ''page'')))
           (Num (Fin 1)) = Num (Fin 3)"
    by (simp add: coalesce_def pageless_group_def paged_word_def skew_word_def)
  have nm: "getProp skew_word ''name'' = Str ''epsilon''"
    by (simp add: skew_word_def)
  from parseUploadedAzureJson_word_rectangle [OF a b c d] have "?rs ! 2 =
      \<lparr>rect_id = uuid_stub 2,
       rect_page = Num (Fin 3),
       rect_x = Fin (Min {3, 1, 2, 4}),
       rect_y = Fin (Min {2, 3/2, 1/2, 1}),
       rect_width = Fin (Max {3, 1, 2, 4} - Min {3, 1, 2, 4}),
       rect_height = Fin (Max {2, 3/2, 1/2, 1} - Min {2, 3/2, 1/2, 1}),
       rect_unit = Inch, rect_label = Str ''epsilon'', rect_color = None\<rparr>"
    unfolding pg nm by (rule conjunct2)
  with a b c d show ?thesis by simp
qed

text \<open>
  In a group without a page whose first word is on page 3, the second word, which has no
  page of its own, is put on page 3, where the page of the word, else of the group, else
  1 would be 1.
\<close>

theorem parseUploadedAzureJson_first_word_page:
  "parseUploadedAzureJson coerce_stub uuid_stub (document_of [pageless_group [paged_word, plain_word]]) =
     Inr [\<lparr>rect_id = ''uuid-0'', rect_page = Num (Fin 3), rect_x = Fin 1, rect_y = Fin 1,
           rect_width = Fin 2, rect_height = Fin 1, rect_unit = Inch,
           rect_label = Str ''delta'', rect_color = None\<rparr>,
          \<lparr>rect_id = ''uuid-1'', rect_page = Num (Fin 3), rect_x = Fin 1, rect_y = Fin 1,
           rect_width = Fin 2, rect_height = Fin 1, rect_unit = Inch,
           rect_label = Str ''alpha'', rect_color = None\<rparr>] \<and>
   spec_page plain_word (pageless_group [paged_word, plain_word]) = Num (Fin 1)"
  by (simp add: doc_defs parse_defs spec_page_def)

text \<open>
  C9. When an item given to \<open>polygonsToRects\<close> has a missing polygon or one of fewer than
  8 values, the call throws the error \<open>Polygon must have 4 points (8 values)\<close> and
  returns no rectangle; nothing in the function catches it. When no item is such, the
  call returns one rectangle for each item.
\<close>

theorem polygonsToRects_malformed:
  "(list_ex malformed items \<longrightarrow>
      polygonsToRects nts items unit = Inl (Error ''Polygon must have 4 points (8 values)''))
   \<and> (\<not> list_ex malformed items \<longrightarrow>
      (\<exists>rs. polygonsToRects nts items unit = Inr rs \<and> length rs = length items))"
  using polygonsToRects_from_throws [of items nts 0 unit]
    polygonsToRects_from_returns [of items nts 0 unit]
  by (simp add: polygonsToRects_def)

theorem polygonsToRects_malformed_items:
  "list_ex malformed [box_item, short_item] \<and>
   polygonsToRects page_text [box_item, short_item] Inch =
     Inl (Error ''Polygon must have 4 points (8 values)'') \<and>
   \<not> list_ex malformed [box_item] \<and>
   (\<exists>rs. polygonsToRects page_text [box_item] Inch = Inr rs \<and> length rs = length [box_item])"
proof -
  have a: "list_ex malformed [box_item, short_item]"
    by (simp add: malformed_def box_item_def short_item_def)
  have b: "\<not> list_ex malformed [box_item]"
    by (simp add: malformed_def box_item_def)
  from polygonsToRects_malformed [of "[box_item, short_item]" page_text Inch] polygonsToRects_malformed [of "[box_item]" page_text Inch] a b
  show ?thesis by blast
qed

section \<open>Properties of the rectangle store\<close>

text \<open>
  C10. For every state of the store, every id and every patch that carries no \<open>id\<close>
  key, \<open>updateRect\<close> leaves the id of every stored rectangle as it was.
\<close>

theorem updateRect_keeps_ids:
  "patch_id patch = None \<Longrightarrow> map rect_id (updateRect ident patch prev) = map rect_id prev"
  by (induction prev) (simp_all add: updateRect_def spread_def pick_def)

theorem updateRect_keeps_ids_x_patch:
  "patch_id x_patch = None \<and>
   map rect_id (updateRect ''t1'' x_patch [inch_rect, pdf_rect]) = map rect_id [inch_rect, pdf_rect] \<and>
   map rect_x (updateRect ''t1'' x_patch [inch_rect, pdf_rect]) = [Fin 5, Fin 10]"
proof -
  have a: "patch_id x_patch = None" by (simp add: x_patch_def)
  have b: "map rect_x (updateRect ''t1'' x_patch [inch_rect, pdf_rect]) = [Fin 5, Fin 10]"
    by (simp add: updateRect_def spread_def pick_def x_patch_def inch_rect_def pdf_rect_def)
  from updateRect_keeps_ids [OF a, of "''t1''" "[inch_rect, pdf_rect]"] a b show ?thesis by simp
qed

text \<open>
  A patch that carries an \<open>id\<close> key replaces the id of the rectangle it is applied to.
\<close>

theorem updateRect_id_patch:
  "map rect_id [inch_rect, pdf_rect] = [''t1'', ''t3''] \<and>
   map rect_id (updateRect ''t1'' id_patch [inch_rect, pdf_rect]) = [''t9'', ''t3'']"
  by (simp add: updateRect_def spread_def pick_def id_patch_def inch_rect_def pdf_rect_def)

end
